theory Spec2Isabelle
  imports Complex_Main "HOL-Library.Log_Nat"
begin

section \<open>Numbers and failures\<close>

text \<open>
  The program computes with JavaScript numbers. A finite number is modelled as a
  \<^typ>\<open>real\<close>, and except where a definition is marked \<open>binary64\<close> the arithmetic is exact:
  those statements say nothing about rounding. The solidarity quota is modelled a second
  time with every operation rounded to binary64, because there the rounding decides which
  bracket the code enters. Where a JavaScript value stops being a finite number for a
  reason that is not rounding (a division by zero, a table lookup that yields a function
  instead of a number), the model stops with an \<open>error\<close> instead of inventing a real.
  Counts and percentages typed into the forms are read with \<open>parseInt\<close> and are modelled
  as \<^typ>\<open>int\<close>.
\<close>

datatype error =
    ValidationError "string list"  \<comment> \<open>the fields \<open>validateInputs\<close> rejected; no result is set\<close>
  | DivisionByZero                 \<comment> \<open>JavaScript continues with \<open>Infinity\<close> or \<open>NaN\<close>\<close>
  | NotANumber                     \<comment> \<open>JavaScript continues with \<open>NaN\<close>\<close>

definition js_div :: "real \<Rightarrow> real \<Rightarrow> error + real" where
  "js_div a b = (if b = 0 then Inl DivisionByZero else Inr (a / b))"

definition js_pow :: "real \<Rightarrow> int \<Rightarrow> error + real" where
  \<comment> \<open>\<open>Math.pow\<close> at an integer exponent; a zero base at a negative exponent divides by zero\<close>
  "js_pow b e =
     (if 0 \<le> e then Inr (b ^ nat e)
      else if b = 0 then Inl DivisionByZero
      else Inr (1 / b ^ nat (- e)))"

definition bind_e :: "error + 'a \<Rightarrow> ('a \<Rightarrow> error + 'b) \<Rightarrow> error + 'b" where
  "bind_e m f = (case m of Inl e \<Rightarrow> Inl e | Inr v \<Rightarrow> f v)"

subsection \<open>Rounding to binary64\<close>

text \<open>
  A binary64 number is a real \<open>m \<times> 2\<^sup>e\<close> with an integer \<open>m\<close> of at most 53 bits.
  \<open>rnd64\<close> rounds a real to the nearest such number, ties to the even \<open>m\<close>, as every
  arithmetic operation and every decimal literal of the program is rounded. The exponent
  is not bounded: overflow and subnormal numbers are left out, the amounts of the
  program being far from both. \<open>exponent2 x\<close> is the \<open>e\<close> with
  \<open>2\<^sup>e \<le> x < 2\<^sup>e\<^sup>+\<^sup>1\<close> for a positive \<open>x\<close>.
\<close>

definition round_half_even :: "real \<Rightarrow> int" where
  "round_half_even y =
     (let f = \<lfloor>y\<rfloor>; d = y - of_int f
      in if d < 1 / 2 then f else if d > 1 / 2 then f + 1 else if even f then f else f + 1)"

definition exponent2 :: "real \<Rightarrow> int" where
  "exponent2 x = (if 1 \<le> x then bitlen \<lfloor>x\<rfloor> - 1 else - bitlen (\<lceil>1 / x\<rceil> - 1))"

definition rnd64 :: "real \<Rightarrow> real" where
  "rnd64 x =
     (if x = 0 then 0
      else let u = 2 powi (exponent2 \<bar>x\<bar> - 52)
           in sgn x * of_int (round_half_even (\<bar>x\<bar> / u)) * u)"

section \<open>The net salary calculator\<close>

datatype PayFrequency = Monthly | Biweekly | Weekly | Daily

datatype MaritalStatus = Single | MarriedNoIncome | MarriedWithIncome

record SalaryParams =
  grossSalary :: real
  payFrequency :: PayFrequency
  region :: string
  maritalStatus :: MaritalStatus
  childrenUnder25 :: int
  childrenOver25 :: int
  workerDisability :: int
  familyDisability :: int

record SalaryResult =
  grossAnnual :: real
  grossPeriodic :: real
  socialSecurityContribution :: real
  employerSocialSecurity :: real
  meiWorker :: real
  meiEmployer :: real
  solidarityQuotaWorker :: real
  solidarityQuotaEmployer :: real
  irpfRetention :: real
  netAnnual :: real
  netPeriodic :: real
  periodName :: string
  periodsPerYear :: real

record Bracket =
  bracket_min :: real
  bracket_max :: "real option"  \<comment> \<open>\<open>None\<close> is \<open>Infinity\<close>\<close>
  rate :: real

text \<open>The codes of \<open>SPANISH_REGIONS\<close>, the regions the form offers, in the order of the source.\<close>

definition SPANISH_REGION_codes :: "string list" where
  "SPANISH_REGION_codes =
     [''AN'', ''AR'', ''AS'', ''IB'', ''CN'', ''CB'', ''CL'', ''CM'', ''CT'', ''VC'',
      ''EX'', ''GA'', ''MD'', ''MC'', ''NV'', ''PV'', ''LR'', ''CE'', ''ML'']"

definition IRPF_BRACKETS :: "Bracket list" where
  "IRPF_BRACKETS =
     [\<lparr>bracket_min = 0, bracket_max = Some 12450, rate = 0.19\<rparr>,
      \<lparr>bracket_min = 12450, bracket_max = Some 20200, rate = 0.24\<rparr>,
      \<lparr>bracket_min = 20200, bracket_max = Some 35200, rate = 0.30\<rparr>,
      \<lparr>bracket_min = 35200, bracket_max = Some 60000, rate = 0.37\<rparr>,
      \<lparr>bracket_min = 60000, bracket_max = Some 300000, rate = 0.47\<rparr>,
      \<lparr>bracket_min = 300000, bracket_max = None, rate = 0.47\<rparr>]"

text \<open>
  \<open>validateInputs\<close> fills a record of messages keyed by field and accepts the input when
  the record has no key. The model returns the keys in the order the checks run (the
  message texts are left out; the two checks of \<open>grossSalary\<close> cannot both fire).
\<close>

definition validateInputs :: "SalaryParams \<Rightarrow> string list" where
  "validateInputs params =
     (if grossSalary params \<le> 0 then [''grossSalary''] else []) @
     (if grossSalary params > 1000000 then [''grossSalary''] else []) @
     (if childrenUnder25 params < 0 then [''childrenUnder25''] else []) @
     (if childrenOver25 params < 0 then [''childrenOver25''] else []) @
     (if workerDisability params < 0 \<or> workerDisability params > 100
      then [''workerDisability''] else []) @
     (if familyDisability params < 0 \<or> familyDisability params > 100
      then [''familyDisability''] else []) @
     (if region params = [] then [''region''] else [])"

definition calculateSocialSecurity :: "real \<Rightarrow> real" where
  "calculateSocialSecurity gross =
     (let ssBase = min gross 53760;
          commonContingencies = ssBase * 0.047;
          unemployment = ssBase * 0.0155;
          training = ssBase * 0.001
      in commonContingencies + unemployment + training)"

definition calculateEmployerSocialSecurity :: "real \<Rightarrow> real" where
  "calculateEmployerSocialSecurity gross =
     (let ssBase = min gross 53760;
          commonContingencies = ssBase * 0.236;
          unemployment = ssBase * 0.055;
          training = ssBase * 0.006;
          workplaceAccidents = ssBase * 0.0065;
          fogasa = ssBase * 0.002
      in commonContingencies + unemployment + training + workplaceAccidents + fogasa)"

text \<open>\<open>calculateMEI\<close> returns the pair (meiEmployer, meiWorker).\<close>

definition calculateMEI :: "real \<Rightarrow> real \<times> real" where
  "calculateMEI gross =
     (let ssBase = min gross 53760;
          meiEmployer = ssBase * 0.0067;
          meiWorker = ssBase * 0.0013
      in (meiEmployer, meiWorker))"

text \<open>
  \<open>calculateSolidarityQuota\<close> returns the pair (solidarityQuotaEmployer,
  solidarityQuotaWorker); \<open>solidarityTotalQuota\<close> is its local variable \<open>totalQuota\<close> once
  the three brackets have been added, as a function of \<open>excessSalary\<close>. These two
  definitions read the formula in exact arithmetic; next to a bracket limit the code's
  rounded comparison can take the other branch, which the binary64 definitions that
  follow them model.
\<close>

definition solidarityTotalQuota :: "real \<Rightarrow> real" where
  "solidarityTotalQuota excessSalary =
     (let totalQuota = 0;
          firstBracketLimit = (4909 * 0.1) * 12;
          totalQuota =
            (if excessSalary > 0
             then totalQuota + min excessSalary firstBracketLimit * 0.0092
             else totalQuota);
          secondBracketLimit = (4909 * 0.4) * 12;
          totalQuota =
            (if excessSalary > firstBracketLimit
             then totalQuota + min (excessSalary - firstBracketLimit) secondBracketLimit * 0.01
             else totalQuota);
          totalQuota =
            (if excessSalary > firstBracketLimit + secondBracketLimit
             then totalQuota + (excessSalary - firstBracketLimit - secondBracketLimit) * 0.0117
             else totalQuota)
      in totalQuota)"

definition calculateSolidarityQuota :: "real \<Rightarrow> real \<times> real" where
  "calculateSolidarityQuota gross =
     (let maxBase2025 = 58908 in
      if gross \<le> maxBase2025 then (0, 0)
      else
        let excessSalary = gross - maxBase2025;
            totalQuota = solidarityTotalQuota excessSalary;
            solidarityQuotaEmployer = totalQuota * 0.8339;
            solidarityQuotaWorker = totalQuota * 0.1661
        in (solidarityQuotaEmployer, solidarityQuotaWorker))"






text \<open>
  The table of \<open>getRegionMultiplier\<close> is an object literal, so a lookup also finds the
  members every object inherits from \<open>Object.prototype\<close>. They are functions (or, for
  \<open>__proto__\<close>, an object): truthy, so \<open>||\<close> keeps them, and \<open>NaN\<close> once multiplied.
\<close>

definition multipliers :: "(string \<times> real) list" where
  "multipliers =
     [(''MD'', 1.0), (''CT'', 1.05), (''AN'', 0.95), (''VC'', 1.02),
      (''PV'', 0.90), (''NV'', 0.88), (''CN'', 0.92)]"

definition Object_prototype_keys :: "string list" where
  "Object_prototype_keys =
     [''constructor'', ''hasOwnProperty'', ''isPrototypeOf'', ''propertyIsEnumerable'',
      ''toLocaleString'', ''toString'', ''valueOf'', ''__proto__'',
      ''__defineGetter__'', ''__defineSetter__'', ''__lookupGetter__'', ''__lookupSetter__'']"

definition getRegionMultiplier :: "string \<Rightarrow> error + real" where
  "getRegionMultiplier r =
     (case map_of multipliers r of
        Some m \<Rightarrow> Inr (if m = 0 then 1.0 else m)
      | None \<Rightarrow> if r \<in> set Object_prototype_keys then Inl NotANumber else Inr 1.0)"

definition getPeriodsPerYear :: "PayFrequency \<Rightarrow> real" where
  "getPeriodsPerYear f =
     (case f of Monthly \<Rightarrow> 12 | Biweekly \<Rightarrow> 26 | Weekly \<Rightarrow> 52 | Daily \<Rightarrow> 365)"

definition getPeriodName :: "PayFrequency \<Rightarrow> string" where
  "getPeriodName f =
     (case f of Monthly \<Rightarrow> ''mes'' | Biweekly \<Rightarrow> ''quincena'' | Weekly \<Rightarrow> ''semana''
      | Daily \<Rightarrow> [CHR ''d'', CHR 0xC3, CHR 0xAD, CHR ''a''])"

text \<open>
  The three stages of \<open>calculateIRPF\<close>: the personal and family minimum (a variable that
  each \<open>if\<close> of the source increases in turn), the taxable base, and the loop over the
  brackets that accumulates \<open>tax\<close>.
\<close>

definition personalMinimum :: "SalaryParams \<Rightarrow> real" where
  "personalMinimum params =
     (let pm = 5550;
          pm = (if maritalStatus params = MarriedNoIncome then pm + 3400 else pm);
          totalChildren = childrenUnder25 params + childrenOver25 params;
          pm = (if totalChildren \<ge> 1 then pm + 2400 else pm);
          pm = (if totalChildren \<ge> 2 then pm + 2700 else pm);
          pm = (if totalChildren \<ge> 3 then pm + 4000 else pm);
          pm = (if totalChildren \<ge> 4 then pm + real_of_int ((totalChildren - 3) * 4500) else pm);
          pm = (if workerDisability params \<ge> 33
                then pm + (if workerDisability params \<ge> 65 then 9000 else 3000) else pm);
          pm = (if familyDisability params \<ge> 33
                then pm + (if familyDisability params \<ge> 65 then 9000 else 3000) else pm)
      in pm)"

definition taxableBase :: "real \<Rightarrow> real \<Rightarrow> SalaryParams \<Rightarrow> real" where
  "taxableBase gross socialSecurity params =
     (let taxableIncome = gross - socialSecurity
      in max 0 (taxableIncome - personalMinimum params))"

fun bracketTax :: "real \<Rightarrow> real \<Rightarrow> Bracket list \<Rightarrow> real" where
  "bracketTax tb tax [] = tax"
| "bracketTax tb tax (b # bs) =
     bracketTax tb
       (if tb > bracket_min b
        then tax + ((case bracket_max b of None \<Rightarrow> tb | Some m \<Rightarrow> min tb m) - bracket_min b) * rate b
        else tax)
       bs"

definition calculateIRPF :: "real \<Rightarrow> real \<Rightarrow> SalaryParams \<Rightarrow> error + real" where
  "calculateIRPF gross socialSecurity params =
     (let tax = bracketTax (taxableBase gross socialSecurity params) 0 IRPF_BRACKETS
      in bind_e (getRegionMultiplier (region params)) (\<lambda>regionMultiplier.
           Inr (tax * regionMultiplier)))"

definition calculateSalary :: "SalaryParams \<Rightarrow> error + SalaryResult" where
  "calculateSalary params =
     (if validateInputs params \<noteq> [] then Inl (ValidationError (validateInputs params))
      else
        let gross = grossSalary params;
            socialSecurity = calculateSocialSecurity gross;
            employerSS = calculateEmployerSocialSecurity gross;
            (meiE, meiW) = calculateMEI gross;
            (solE, solW) = calculateSolidarityQuota gross;
            totalWorkerContributions = socialSecurity + meiW + solW
        in bind_e (calculateIRPF gross totalWorkerContributions params) (\<lambda>irpf.
             let net = gross - totalWorkerContributions - irpf;
                 periods = getPeriodsPerYear (payFrequency params)
             in Inr \<lparr>grossAnnual = gross,
                     grossPeriodic = gross / periods,
                     socialSecurityContribution = socialSecurity,
                     employerSocialSecurity = employerSS,
                     meiWorker = meiW,
                     meiEmployer = meiE,
                     solidarityQuotaWorker = solW,
                     solidarityQuotaEmployer = solE,
                     irpfRetention = irpf,
                     netAnnual = net,
                     netPeriodic = net / periods,
                     periodName = getPeriodName (payFrequency params),
                     periodsPerYear = periods\<rparr>))"

section \<open>The compound interest calculator\<close>

datatype DepositTiming = Beginning | End

record CalculationParams =
  initialBalance :: real
  periodicDeposit :: real
  frequency :: int
  depositTiming :: DepositTiming
  annualInterestRate :: real
  years :: int

record YearEntry =
  year :: int
  balance :: real
  interest :: real
  deposits :: real

record CalculationResult =
  futureValue :: real
  totalDeposits :: real
  totalInterest :: real
  yearlyData :: "YearEntry list"

text \<open>
  The calculator's own \<open>validateInputs\<close> (the second function of that name in the
  program), again as the list of rejected fields. It does not look at \<open>frequency\<close>.
\<close>

definition validateInputs_CI :: "CalculationParams \<Rightarrow> string list" where
  "validateInputs_CI params =
     (if initialBalance params < 0 then [''initialBalance''] else []) @
     (if periodicDeposit params < 0 then [''periodicDeposit''] else []) @
     (if annualInterestRate params < 0 then [''annualInterestRate''] else []) @
     (if years params \<le> 0 then [''years''] else [])"

text \<open>
  The body of the \<open>for\<close> loop: the entry pushed for one \<open>year\<close>. The source writes
  \<open>r/n\<close> and \<open>Math.pow(1 + r/n, n*year)\<close> out at each use; they are bound once here
  (\<open>rn\<close>, \<open>pw\<close>), at their first use.
\<close>

definition yearlyEntry :: "CalculationParams \<Rightarrow> int \<Rightarrow> error + YearEntry" where
  "yearlyEntry params y =
     (let r = annualInterestRate params / 100;
          n = frequency params
      in bind_e (js_div r (real_of_int n)) (\<lambda>rn.
         bind_e (js_pow (1 + rn) (n * y)) (\<lambda>pw.
         let yearlyPrincipal = initialBalance params * pw
         in bind_e
              (if periodicDeposit params > 0 \<and> y > 0
               then if r > 0
                    then bind_e (js_div (periodicDeposit params * (pw - 1)) rn) (\<lambda>v.
                           Inr (if depositTiming params = Beginning then v * (1 + rn) else v))
                    else Inr (periodicDeposit params * real_of_int n * real_of_int y)
               else Inr 0)
              (\<lambda>yearlyDepositsValue.
         let bal = yearlyPrincipal + yearlyDepositsValue;
             depositsToDate =
               initialBalance params + periodicDeposit params * real_of_int n * real_of_int y;
             interestEarned = bal - depositsToDate
         in Inr \<lparr>year = y, balance = bal, interest = interestEarned,
                 deposits = depositsToDate\<rparr>))))"

text \<open>The loop \<open>for (let year = 0; year <= years; year++)\<close>, pushing onto \<open>yearlyData\<close>.\<close>

function yearlyLoop :: "CalculationParams \<Rightarrow> int \<Rightarrow> YearEntry list \<Rightarrow> error + YearEntry list" where
  "yearlyLoop params y acc =
     (if y \<le> years params
      then (case yearlyEntry params y of
              Inl e \<Rightarrow> Inl e
            | Inr entry \<Rightarrow> yearlyLoop params (y + 1) (acc @ [entry]))
      else Inr acc)"
  by pat_completeness auto
termination
  by (relation "measure (\<lambda>(params, y, acc). nat (years params + 1 - y))") auto

declare yearlyLoop.simps [simp del]

definition calculateCompoundInterest :: "CalculationParams \<Rightarrow> error + CalculationResult" where
  "calculateCompoundInterest params =
     (if validateInputs_CI params \<noteq> [] then Inl (ValidationError (validateInputs_CI params))
      else
        let r = annualInterestRate params / 100;
            n = frequency params;
            t = years params
        in bind_e (js_div r (real_of_int n)) (\<lambda>rn.
           bind_e (js_pow (1 + rn) (n * t)) (\<lambda>pw.
           let fvPrincipal = initialBalance params * pw
           in bind_e
                (if periodicDeposit params > 0 \<and> r > 0
                 then bind_e (js_div (periodicDeposit params * (pw - 1)) rn) (\<lambda>v.
                        Inr (if depositTiming params = Beginning then v * (1 + rn) else v))
                 else if periodicDeposit params > 0
                 then Inr (periodicDeposit params * real_of_int n * real_of_int t)
                 else Inr 0)
                (\<lambda>fvDeposits.
           let fv = fvPrincipal + fvDeposits;
               total = initialBalance params + periodicDeposit params * real_of_int n * real_of_int t;
               earned = fv - total
           in bind_e (yearlyLoop params 0 []) (\<lambda>entries.
                Inr \<lparr>futureValue = fv, totalDeposits = total, totalInterest = earned,
                     yearlyData = entries\<rparr>)))))"

section \<open>Example inputs\<close>

definition defaultSalaryParams :: SalaryParams where
  \<comment> \<open>the initial state of the salary form\<close>
  "defaultSalaryParams =
     \<lparr>grossSalary = 35000, payFrequency = Monthly, region = ''MD'', maritalStatus = Single,
      childrenUnder25 = 0, childrenOver25 = 0, workerDisability = 0, familyDisability = 0\<rparr>"

definition withChildren :: "int \<Rightarrow> int \<Rightarrow> SalaryParams" where
  "withChildren u v = defaultSalaryParams\<lparr>childrenUnder25 := u, childrenOver25 := v\<rparr>"

definition twoYearPlan :: CalculationParams where
  "twoYearPlan =
     \<lparr>initialBalance = 10000, periodicDeposit = 500, frequency = 1, depositTiming = End,
      annualInterestRate = 7, years = 2\<rparr>"

definition gross_64798_8 :: real where
  \<comment> \<open>58,908 + 5,890.80 as the program reads it\<close>
  "gross_64798_8 = rnd64 64798.8"


section \<open>Social security, MEI and the solidarity quota\<close>

text \<open>
  C7: for every gross annual salary of at least 53,760 the worker's social security
  contribution is 53,760 \<times> 0.0635, whatever the salary: the base is
  \<open>min(grossAnnual, 53760)\<close>.
\<close>

theorem social_security_clamped:
  "53760 \<le> g \<Longrightarrow> calculateSocialSecurity g = 53760 * 0.0635"
  by (simp add: calculateSocialSecurity_def Let_def min_def)

theorem social_security_clamped_witness:
  "(53760 :: real) \<le> 53760 \<and> calculateSocialSecurity 53760 = 53760 * 0.0635 \<and>
   calculateSocialSecurity 1000000 = 53760 * 0.0635"
  using social_security_clamped [of 53760] social_security_clamped [of 1000000] by simp




lemma solidarityTotalQuota_piecewise:
  "solidarityTotalQuota e =
     (if e \<le> 0 then 0
      else if e \<le> 5890.8 then e * 0.0092
      else if e \<le> 29454 then 5890.8 * 0.0092 + (e - 5890.8) * 0.01
      else 5890.8 * 0.0092 + 23563.2 * 0.01 + (e - 29454) * 0.0117)"
  by (simp add: solidarityTotalQuota_def Let_def min_def)

lemma solidarityTotalQuota_strict_mono:
  "0 \<le> a \<Longrightarrow> a < b \<Longrightarrow> solidarityTotalQuota a < solidarityTotalQuota b"
  unfolding solidarityTotalQuota_piecewise by (auto split: if_splits simp: field_simps)

lemma solidarity_sum:
  "fst (calculateSolidarityQuota x) + snd (calculateSolidarityQuota x) =
     (if x \<le> 58908 then 0 else solidarityTotalQuota (x - 58908))"
  by (simp add: calculateSolidarityQuota_def Let_def algebra_simps)

text \<open>
  In exact arithmetic the quota is 0 up to 58,908, strictly increasing from there on and
  5,890.80 \<times> 0.0092 at 58,908 + 5,890.80, where the excess equals the first bracket
  limit. The code computes in binary64, which the rest of this section is about.
\<close>

lemma solidarity_quota_exact_reals:
  "(g \<le> 58908 \<longrightarrow> calculateSolidarityQuota g = (0, 0)) \<and>
   (58908 \<le> a \<and> a < b \<longrightarrow>
      fst (calculateSolidarityQuota a) + snd (calculateSolidarityQuota a)
        < fst (calculateSolidarityQuota b) + snd (calculateSolidarityQuota b)) \<and>
   calculateSolidarityQuota (58908 + 5890.80) =
     (5890.80 * 0.0092 * 0.8339, 5890.80 * 0.0092 * 0.1661) \<and>
   fst (calculateSolidarityQuota (58908 + 5890.80)) +
     snd (calculateSolidarityQuota (58908 + 5890.80)) = 5890.80 * 0.0092"
proof (intro conjI impI)
  assume "g \<le> 58908"
  then show "calculateSolidarityQuota g = (0, 0)"
    by (simp add: calculateSolidarityQuota_def)
next
  assume h: "58908 \<le> a \<and> a < b"
  have z: "solidarityTotalQuota 0 = 0"
    by (simp add: solidarityTotalQuota_piecewise)
  from h have "solidarityTotalQuota (a - 58908) < solidarityTotalQuota (b - 58908)"
    by (intro solidarityTotalQuota_strict_mono) auto
  with h z show "fst (calculateSolidarityQuota a) + snd (calculateSolidarityQuota a)
       < fst (calculateSolidarityQuota b) + snd (calculateSolidarityQuota b)"
    by (cases "a = 58908") (auto simp: solidarity_sum)
next
  show e: "calculateSolidarityQuota (58908 + 5890.80) =
      (5890.80 * 0.0092 * 0.8339, 5890.80 * 0.0092 * 0.1661)"
    by (simp add: calculateSolidarityQuota_def Let_def solidarityTotalQuota_piecewise)
  show "fst (calculateSolidarityQuota (58908 + 5890.80)) +
      snd (calculateSolidarityQuota (58908 + 5890.80)) = 5890.80 * 0.0092"
    unfolding e by simp
qed

subsection \<open>Properties of the rounding\<close>

















subsection \<open>The solidarity quota in binary64\<close>

lemmas rnd64_eval = rnd64_def exponent2_def compute_bitlen round_half_even_def Let_def












lemma gross_64798_8_sum: "rnd64 (58908 + rnd64 5890.80) = gross_64798_8"
  by (simp add: gross_64798_8_def rnd64_eval)











section \<open>Income tax (IRPF)\<close>

text \<open>
  C1, as the code has it: the child allowance added to the personal minimum is
  cumulative. Each of the four \<open>if\<close> statements that applies adds its amount to what the
  earlier ones added, so by total child count (\<open>childrenUnder25 + childrenOver25\<close>) the
  allowance is 0 for no child, 2,400 for one, 2,400 + 2,700 = 5,100 for two,
  2,400 + 2,700 + 4,000 = 9,100 for three, and 9,100 plus 4,500 per child beyond the third
  from four on (18,100 for five). The allowance is read off as the personal minimum of
  the input less the personal minimum of the same input without children.
\<close>

theorem child_allowance_cumulative:
  "personalMinimum p - personalMinimum (p\<lparr>childrenUnder25 := 0, childrenOver25 := 0\<rparr>) =
     (let n = childrenUnder25 p + childrenOver25 p
      in if n \<le> 0 then 0
         else if n = 1 then 2400
         else if n = 2 then 2400 + 2700
         else if n = 3 then 2400 + 2700 + 4000
         else 2400 + 2700 + 4000 + 4500 * real_of_int (n - 3))"
  by (simp add: personalMinimum_def Let_def)

text \<open>
  The exclusive tiers fail at two children, who add 5,100 and not 2,700; three children
  add 9,100 and not 4,000, five add 18,100 and not 13,000.
\<close>

theorem child_allowance_tiers_not_exclusive:
  "personalMinimum (withChildren 1 1) - personalMinimum (withChildren 0 0) = 5100 \<and>
   personalMinimum (withChildren 1 1) - personalMinimum (withChildren 0 0) \<noteq> 2700 \<and>
   personalMinimum (withChildren 2 1) - personalMinimum (withChildren 0 0) = 9100 \<and>
   personalMinimum (withChildren 3 2) - personalMinimum (withChildren 0 0) = 18100"
  by (simp add: personalMinimum_def Let_def withChildren_def defaultSalaryParams_def)

lemma bracketTax_ge_acc:
  "\<forall>b \<in> set bs. 0 \<le> rate b \<and> (case bracket_max b of None \<Rightarrow> True | Some m \<Rightarrow> bracket_min b \<le> m)
   \<Longrightarrow> acc \<le> bracketTax tb acc bs"
proof (induction bs arbitrary: acc)
  case Nil
  then show ?case by simp
next
  case (Cons b bs)
  have "acc \<le> (if tb > bracket_min b
        then acc + ((case bracket_max b of None \<Rightarrow> tb | Some m \<Rightarrow> min tb m) - bracket_min b) * rate b
        else acc)"
    using Cons.prems by (auto split: option.splits simp: min_def)
  also have "\<dots> \<le> bracketTax tb \<dots> bs"
    using Cons.prems by (intro Cons.IH) auto
  finally show ?case by simp
qed

lemma bracketTax_nonneg: "0 \<le> bracketTax tb 0 IRPF_BRACKETS"
  by (rule bracketTax_ge_acc) (simp add: IRPF_BRACKETS_def)

lemma bracketTax_zero_base: "tb \<le> 0 \<Longrightarrow> bracketTax tb 0 IRPF_BRACKETS = 0"
  by (simp add: IRPF_BRACKETS_def)

lemma getRegionMultiplier_pos: "getRegionMultiplier r = Inr m \<Longrightarrow> 0 < m"
  by (auto simp: getRegionMultiplier_def multipliers_def split: if_splits)

lemma getRegionMultiplier_total:
  "r \<notin> set Object_prototype_keys \<Longrightarrow> \<exists>m. getRegionMultiplier r = Inr m"
  by (auto simp: getRegionMultiplier_def split: option.splits)

lemma region_codes_not_inherited:
  "r \<in> set SPANISH_REGION_codes \<Longrightarrow> r \<notin> set Object_prototype_keys"
  by (auto simp: SPANISH_REGION_codes_def Object_prototype_keys_def)

lemma calculateIRPF_Inr:
  "calculateIRPF g ss p = Inr v \<longleftrightarrow>
     (\<exists>m. getRegionMultiplier (region p) = Inr m \<and>
          v = bracketTax (taxableBase g ss p) 0 IRPF_BRACKETS * m)"
  by (cases "getRegionMultiplier (region p)") (auto simp: calculateIRPF_def bind_e_def Let_def)

text \<open>
  C8: the taxable base \<open>max(0, taxableIncome - personalMinimum)\<close> is never negative; when
  the taxable income is at most the personal minimum the base is 0 and the withholding
  returned is exactly 0; every withholding returned is \<open>\<ge> 0\<close>, whatever the sign of the
  inputs, because every region multiplier is positive. A withholding is returned for
  every region that is not the name of a member inherited from \<open>Object.prototype\<close>, so
  for each of the nineteen region codes.
\<close>

theorem irpf_nonnegative:
  "0 \<le> taxableBase g ss p \<and>
   (g - ss \<le> personalMinimum p \<longrightarrow>
      taxableBase g ss p = 0 \<and>
      (region p \<notin> set Object_prototype_keys \<longrightarrow> calculateIRPF g ss p = Inr 0)) \<and>
   (calculateIRPF g ss p = Inr v \<longrightarrow> 0 \<le> v) \<and>
   (getRegionMultiplier r = Inr m \<longrightarrow> 0 < m) \<and>
   (region p \<notin> set Object_prototype_keys \<longrightarrow> (\<exists>w. calculateIRPF g ss p = Inr w))"
proof (intro conjI impI)
  show "0 \<le> taxableBase g ss p"
    by (simp add: taxableBase_def Let_def)
next
  assume le: "g - ss \<le> personalMinimum p"
  then show tb: "taxableBase g ss p = 0"
    by (simp add: taxableBase_def Let_def)
  assume "region p \<notin> set Object_prototype_keys"
  then obtain m where "getRegionMultiplier (region p) = Inr m"
    using getRegionMultiplier_total by blast
  with tb show "calculateIRPF g ss p = Inr 0"
    by (simp add: calculateIRPF_Inr bracketTax_zero_base)
next
  assume "calculateIRPF g ss p = Inr v"
  then obtain m where "getRegionMultiplier (region p) = Inr m"
    and v: "v = bracketTax (taxableBase g ss p) 0 IRPF_BRACKETS * m"
    by (auto simp: calculateIRPF_Inr)
  then have "0 < m" by (simp add: getRegionMultiplier_pos)
  with v bracketTax_nonneg [of "taxableBase g ss p"] show "0 \<le> v" by simp
next
  assume "getRegionMultiplier r = Inr m"
  then show "0 < m" by (rule getRegionMultiplier_pos)
next
  assume "region p \<notin> set Object_prototype_keys"
  then obtain m where "getRegionMultiplier (region p) = Inr m"
    using getRegionMultiplier_total by blast
  then show "\<exists>w. calculateIRPF g ss p = Inr w"
    by (simp add: calculateIRPF_Inr)
qed

theorem irpf_nonnegative_witness:
  "(5000 :: real) - 400 \<le> personalMinimum defaultSalaryParams \<and>
   region defaultSalaryParams \<notin> set Object_prototype_keys \<and>
   taxableBase 5000 400 defaultSalaryParams = 0 \<and>
   calculateIRPF 5000 400 defaultSalaryParams = Inr 0 \<and>
   getRegionMultiplier ''NV'' = Inr 0.88 \<and> (0 :: real) < 0.88 \<and>
   calculateIRPF 35000 2268 defaultSalaryParams = Inr 6320.1 \<and> (0 :: real) \<le> 6320.1"
proof -
  have pm: "personalMinimum defaultSalaryParams = 5550"
    by (simp add: personalMinimum_def defaultSalaryParams_def Let_def)
  have r: "region defaultSalaryParams \<notin> set Object_prototype_keys"
    by (simp add: defaultSalaryParams_def Object_prototype_keys_def)
  have nv: "getRegionMultiplier ''NV'' = Inr 0.88"
    by (simp add: getRegionMultiplier_def multipliers_def)
  have md: "getRegionMultiplier ''MD'' = Inr 1"
    by (simp add: getRegionMultiplier_def multipliers_def)
  have v: "calculateIRPF 35000 2268 defaultSalaryParams = Inr 6320.1"
    by (simp add: calculateIRPF_def taxableBase_def pm Let_def IRPF_BRACKETS_def bind_e_def md)
       (simp add: defaultSalaryParams_def md)
  from irpf_nonnegative [of 5000 400 defaultSalaryParams "6320.1" "''NV''" "0.88"] pm r nv v
  show ?thesis by simp
qed

text \<open>
  C9: the withholding depends on the two children fields through their sum only. Two
  inputs that agree on every other field and have the same total number of children get
  the same withholding from \<open>calculateIRPF\<close>; when no count is negative (so that
  validation treats both alike) they get the same outcome from \<open>calculateSalary\<close>.
\<close>

theorem irpf_children_only_through_sum:
  assumes "q = p\<lparr>childrenUnder25 := u, childrenOver25 := v\<rparr>"
    and "u + v = childrenUnder25 p + childrenOver25 p"
  shows "calculateIRPF g ss q = calculateIRPF g ss p \<and>
    (0 \<le> u \<and> 0 \<le> v \<and> 0 \<le> childrenUnder25 p \<and> 0 \<le> childrenOver25 p \<longrightarrow>
       calculateSalary q = calculateSalary p)"
proof -
  have pm: "personalMinimum q = personalMinimum p"
    using assms by (simp add: personalMinimum_def)
  then have irpf: "calculateIRPF g' ss' q = calculateIRPF g' ss' p" for g' ss'
    using assms(1) by (simp add: calculateIRPF_def taxableBase_def)
  have "calculateSalary q = calculateSalary p"
    if "0 \<le> u \<and> 0 \<le> v \<and> 0 \<le> childrenUnder25 p \<and> 0 \<le> childrenOver25 p"
  proof -
    from that assms(1) have "validateInputs q = validateInputs p"
      by (simp add: validateInputs_def)
    moreover have "calculateIRPF g' ss' (p\<lparr>childrenUnder25 := u, childrenOver25 := v\<rparr>) =
        calculateIRPF g' ss' p" for g' ss'
      using irpf [of g' ss'] assms(1) by simp
    ultimately show ?thesis
      using assms(1) by (simp add: calculateSalary_def)
  qed
  with irpf show ?thesis by blast
qed

theorem irpf_children_only_through_sum_witness:
  "withChildren 3 0 = (withChildren 1 2)\<lparr>childrenUnder25 := 3, childrenOver25 := 0\<rparr> \<and>
   (3 :: int) + 0 = childrenUnder25 (withChildren 1 2) + childrenOver25 (withChildren 1 2) \<and>
   calculateIRPF 35000 2268 (withChildren 3 0) = calculateIRPF 35000 2268 (withChildren 1 2) \<and>
   calculateSalary (withChildren 3 0) = calculateSalary (withChildren 1 2)"
proof -
  have a: "withChildren 3 0 = (withChildren 1 2)\<lparr>childrenUnder25 := 3, childrenOver25 := 0\<rparr>"
    by (simp add: withChildren_def)
  have b: "(3 :: int) + 0 = childrenUnder25 (withChildren 1 2) + childrenOver25 (withChildren 1 2)"
    by (simp add: withChildren_def)
  have c: "(0::int) \<le> 3 \<and> (0::int) \<le> 0 \<and> 0 \<le> childrenUnder25 (withChildren 1 2) \<and> 0 \<le> childrenOver25 (withChildren 1 2)"
    by (simp add: withChildren_def)
  from irpf_children_only_through_sum [OF a b, of 35000 2268] a b c show ?thesis by blast
qed

lemma getRegionMultiplier_default:
  "r \<notin> set (map fst multipliers) \<Longrightarrow> r \<notin> set Object_prototype_keys \<Longrightarrow>
   getRegionMultiplier r = Inr 1"
  by (auto simp: getRegionMultiplier_def multipliers_def split: option.splits if_splits)

lemma other_region_codes:
  "filter (\<lambda>c. c \<notin> set (map fst multipliers)) SPANISH_REGION_codes =
     [''AR'', ''AS'', ''IB'', ''CB'', ''CL'', ''CM'', ''EX'', ''GA'', ''MC'', ''LR'', ''CE'', ''ML'']"
  by (simp add: SPANISH_REGION_codes_def multipliers_def)

lemma two_chars_not_inherited: "length r = 2 \<Longrightarrow> r \<notin> set Object_prototype_keys"
  by (auto simp: Object_prototype_keys_def)

lemma personalMinimum_region: "personalMinimum (p\<lparr>region := c\<rparr>) = personalMinimum p"
  by (simp add: personalMinimum_def split del: if_split cong: if_cong)

lemma calculateIRPF_region:
  "calculateIRPF g ss (p\<lparr>region := c\<rparr>) =
     bind_e (getRegionMultiplier c)
       (\<lambda>m. Inr (bracketTax (taxableBase g ss p) 0 IRPF_BRACKETS * m))"
  by (simp add: calculateIRPF_def taxableBase_def personalMinimum_region)

text \<open>
  For every region string that is neither one of the seven keyed codes nor the name of a
  member the table inherits from \<open>Object.prototype\<close>, in particular for the twelve
  other region codes, \<open>getRegionMultiplier\<close> returns 1.0 and \<open>calculateIRPF\<close> the Madrid
  result.
\<close>

lemma region_multiplier_default:
  assumes "r \<notin> {''MD'', ''CT'', ''AN'', ''VC'', ''PV'', ''NV'', ''CN''}"
    and "r \<notin> set Object_prototype_keys"
  shows "getRegionMultiplier r = Inr 1 \<and>
    calculateIRPF g ss (p\<lparr>region := r\<rparr>) = calculateIRPF g ss (p\<lparr>region := ''MD''\<rparr>) \<and>
    list_all (\<lambda>c. getRegionMultiplier c = Inr 1 \<and>
                 calculateIRPF g ss (p\<lparr>region := c\<rparr>) = calculateIRPF g ss (p\<lparr>region := ''MD''\<rparr>))
      [''AR'', ''AS'', ''IB'', ''CB'', ''CL'', ''CM'', ''EX'', ''GA'', ''MC'', ''LR'', ''CE'', ''ML'']"
proof -
  have md: "getRegionMultiplier ''MD'' = Inr 1"
    by (simp add: getRegionMultiplier_def multipliers_def)
  have r: "getRegionMultiplier r = Inr 1"
    using assms by (intro getRegionMultiplier_default) (simp_all add: multipliers_def)
  have twelve: "list_all (\<lambda>c. getRegionMultiplier c = Inr 1)
      [''AR'', ''AS'', ''IB'', ''CB'', ''CL'', ''CM'', ''EX'', ''GA'', ''MC'', ''LR'', ''CE'', ''ML'']"
    by (simp add: getRegionMultiplier_default two_chars_not_inherited multipliers_def)
  from r twelve md show ?thesis
    by (simp add: calculateIRPF_region)
qed

text \<open>
  C10: \<open>getRegionMultiplier\<close> is meant to return 1.0 for every region string other than
  the seven keyed codes, so that \<open>calculateIRPF\<close> returns the Madrid result there. The
  code misses this at the names of inherited members: the region \<open>constructor\<close> passes
  \<open>validateInputs\<close>, which only asks for a non-empty region, \<open>multipliers['constructor']\<close>
  is the function \<open>Object\<close>, which \<open>||\<close> keeps in place of the default, and the
  withholding \<open>tax * regionMultiplier\<close> and with it the net salary are \<open>NaN\<close>, where
  Madrid gets 6,320.10.
\<close>

theorem region_multiplier_inherited_member:
  "''constructor'' \<notin> {''MD'', ''CT'', ''AN'', ''VC'', ''PV'', ''NV'', ''CN''} \<and>
   validateInputs (defaultSalaryParams\<lparr>region := ''constructor''\<rparr>) = [] \<and>
   getRegionMultiplier ''constructor'' = Inl NotANumber \<and>
   getRegionMultiplier ''constructor'' \<noteq> Inr 1 \<and>
   calculateIRPF 35000 2268 (defaultSalaryParams\<lparr>region := ''constructor''\<rparr>) = Inl NotANumber \<and>
   calculateIRPF 35000 2268 (defaultSalaryParams\<lparr>region := ''MD''\<rparr>) = Inr 6320.1 \<and>
   calculateSalary (defaultSalaryParams\<lparr>region := ''constructor''\<rparr>) = Inl NotANumber"
proof -
  have m: "getRegionMultiplier ''constructor'' = Inl NotANumber"
    by (simp add: getRegionMultiplier_def multipliers_def Object_prototype_keys_def)
  have v: "validateInputs (defaultSalaryParams\<lparr>region := ''constructor''\<rparr>) = []"
    by (simp add: validateInputs_def defaultSalaryParams_def)
  have i: "calculateIRPF g ss (defaultSalaryParams\<lparr>region := ''constructor''\<rparr>) = Inl NotANumber"
    for g ss
    by (simp add: calculateIRPF_region m bind_e_def)
  have s: "calculateSalary (defaultSalaryParams\<lparr>region := ''constructor''\<rparr>) = Inl NotANumber"
    by (simp add: calculateSalary_def v i bind_e_def Let_def split: prod.splits)
  have md: "calculateIRPF 35000 2268 (defaultSalaryParams\<lparr>region := ''MD''\<rparr>) = Inr 6320.1"
    by (simp add: getRegionMultiplier_def multipliers_def calculateIRPF_def bind_e_def
        taxableBase_def personalMinimum_def defaultSalaryParams_def IRPF_BRACKETS_def Let_def)
  from m v i s md show ?thesis by simp
qed

section \<open>The salary result\<close>

lemma calculateSalary_Inr:
  "calculateSalary p = Inr res \<Longrightarrow>
     validateInputs p = [] \<and>
     grossAnnual res = grossSalary p \<and>
     socialSecurityContribution res = calculateSocialSecurity (grossSalary p) \<and>
     meiWorker res = snd (calculateMEI (grossSalary p)) \<and>
     solidarityQuotaWorker res = snd (calculateSolidarityQuota (grossSalary p)) \<and>
     calculateIRPF (grossSalary p)
       (socialSecurityContribution res + meiWorker res + solidarityQuotaWorker res) p
       = Inr (irpfRetention res) \<and>
     netAnnual res = grossAnnual res -
       (socialSecurityContribution res + meiWorker res + solidarityQuotaWorker res) -
       irpfRetention res"
  by (auto simp: calculateSalary_def Let_def bind_e_def split: if_splits prod.splits sum.splits)

text \<open>
  C5: in every result of \<open>calculateSalary\<close> the net annual salary plus the worker's
  deductions (social security, MEI, solidarity quota and the IRPF withholding) is the
  gross annual salary, each deduction being the value its function computes; in exact
  arithmetic the equation holds with no tolerance. A result is produced for every input
  that passes validation and whose region is not the name of a member inherited from
  \<open>Object.prototype\<close>, so for each of the nineteen region codes.
\<close>

theorem net_salary_identity:
  "(calculateSalary p = Inr res \<longrightarrow>
      grossAnnual res = grossSalary p \<and>
      socialSecurityContribution res = calculateSocialSecurity (grossSalary p) \<and>
      meiWorker res = snd (calculateMEI (grossSalary p)) \<and>
      solidarityQuotaWorker res = snd (calculateSolidarityQuota (grossSalary p)) \<and>
      calculateIRPF (grossSalary p)
        (socialSecurityContribution res + meiWorker res + solidarityQuotaWorker res) p
        = Inr (irpfRetention res) \<and>
      netAnnual res +
        (socialSecurityContribution res + meiWorker res + solidarityQuotaWorker res +
         irpfRetention res) = grossAnnual res) \<and>
   (validateInputs p = [] \<and> region p \<notin> set Object_prototype_keys \<longrightarrow>
      (\<exists>res. calculateSalary p = Inr res))"
proof (intro conjI impI)
  assume v: "validateInputs p = [] \<and> region p \<notin> set Object_prototype_keys"
  then obtain m where "getRegionMultiplier (region p) = Inr m"
    using getRegionMultiplier_total by blast
  with v show "\<exists>res. calculateSalary p = Inr res"
    by (simp add: calculateSalary_def calculateIRPF_def Let_def bind_e_def split: prod.splits)
next
  assume r: "calculateSalary p = Inr res"
  note f = calculateSalary_Inr [OF r]
  from f show "grossAnnual res = grossSalary p" by simp
  from f show "socialSecurityContribution res = calculateSocialSecurity (grossSalary p)" by simp
  from f show "meiWorker res = snd (calculateMEI (grossSalary p))" by simp
  from f show "solidarityQuotaWorker res = snd (calculateSolidarityQuota (grossSalary p))" by simp
  from f show "calculateIRPF (grossSalary p)
        (socialSecurityContribution res + meiWorker res + solidarityQuotaWorker res) p
        = Inr (irpfRetention res)" by blast
  from f show "netAnnual res +
        (socialSecurityContribution res + meiWorker res + solidarityQuotaWorker res +
         irpfRetention res) = grossAnnual res" by simp
qed

theorem net_salary_identity_witness:
  "validateInputs defaultSalaryParams = [] \<and>
   region defaultSalaryParams \<notin> set Object_prototype_keys \<and>
   (\<exists>res. calculateSalary defaultSalaryParams = Inr res \<and>
      grossAnnual res = 35000 \<and>
      socialSecurityContribution res = 2222.5 \<and>
      meiWorker res = 45.5 \<and>
      solidarityQuotaWorker res = 0 \<and>
      netAnnual res + (socialSecurityContribution res + meiWorker res +
        solidarityQuotaWorker res + irpfRetention res) = grossAnnual res)"
proof -
  have v: "validateInputs defaultSalaryParams = []"
    by (simp add: validateInputs_def defaultSalaryParams_def)
  have r: "region defaultSalaryParams \<notin> set Object_prototype_keys"
    by (simp add: defaultSalaryParams_def Object_prototype_keys_def)
  have g: "grossSalary defaultSalaryParams = 35000"
    by (simp add: defaultSalaryParams_def)
  have ss: "calculateSocialSecurity 35000 = 2222.5"
    by (simp add: calculateSocialSecurity_def Let_def)
  have mei: "calculateMEI 35000 = (234.5, 45.5)"
    by (simp add: calculateMEI_def Let_def)
  have sol: "calculateSolidarityQuota 35000 = (0, 0)"
    by (simp add: calculateSolidarityQuota_def)
  from net_salary_identity [of defaultSalaryParams] v r
  obtain res where res: "calculateSalary defaultSalaryParams = Inr res" by blast
  from net_salary_identity [of defaultSalaryParams res] res g ss mei sol
  have "grossAnnual res = 35000 \<and>
      socialSecurityContribution res = 2222.5 \<and>
      meiWorker res = 45.5 \<and>
      solidarityQuotaWorker res = 0 \<and>
      netAnnual res + (socialSecurityContribution res + meiWorker res +
        solidarityQuotaWorker res + irpfRetention res) = grossAnnual res"
    by simp
  with v r res show ?thesis by blast
qed

section \<open>Compound interest\<close>

lemma bind_e_Inr: "bind_e m f = Inr v \<longleftrightarrow> (\<exists>a. m = Inr a \<and> f a = Inr v)"
  by (cases m) (simp_all add: bind_e_def)

lemma yearlyLoop_last:
  "yearlyLoop p y acc = Inr ys \<Longrightarrow> y \<le> years p \<Longrightarrow> ys \<noteq> [] \<and> yearlyEntry p (years p) = Inr (last ys)"
proof (induction p y acc rule: yearlyLoop.induct)
  case (1 p y acc)
  from "1.prems" obtain en where en: "yearlyEntry p y = Inr en"
    and rest: "yearlyLoop p (y + 1) (acc @ [en]) = Inr ys"
    by (auto simp: yearlyLoop.simps [of p y acc] split: sum.splits)
  show ?case
  proof (cases "y + 1 \<le> years p")
    case True
    with "1.IH" [OF "1.prems"(2) en rest] show ?thesis by simp
  next
    case False
    with "1.prems"(2) have y: "y = years p" by simp
    from False rest have "ys = acc @ [en]"
      by (simp add: yearlyLoop.simps [of p "y + 1"])
    with en y show ?thesis by simp
  qed
qed

lemma yearlyEntry_total:
  assumes "0 < frequency p" "0 \<le> annualInterestRate p" "0 \<le> y"
  shows "\<exists>e. yearlyEntry p y = Inr e"
proof -
  have n: "real_of_int (frequency p) \<noteq> 0" using assms by simp
  have e: "0 \<le> frequency p * y" using assms by simp
  have rn: "0 < annualInterestRate p \<Longrightarrow> annualInterestRate p / 100 / real_of_int (frequency p) \<noteq> 0"
    using assms by simp
  show ?thesis using n e rn
    by (simp add: yearlyEntry_def js_div_def js_pow_def bind_e_def Let_def)
qed

lemma yearlyLoop_total:
  "0 < frequency p \<Longrightarrow> 0 \<le> annualInterestRate p \<Longrightarrow> 0 \<le> y \<Longrightarrow> \<exists>ys. yearlyLoop p y acc = Inr ys"
proof (induction p y acc rule: yearlyLoop.induct)
  case (1 p y acc)
  show ?case
  proof (cases "y \<le> years p")
    case True
    from yearlyEntry_total [OF "1.prems"] obtain en where en: "yearlyEntry p y = Inr en" ..
    from "1.prems" have "0 \<le> y + 1" by simp
    from "1.IH" [OF True en "1.prems"(1,2) this] True en show ?thesis
      by (simp add: yearlyLoop.simps [of p y acc])
  next
    case False
    then show ?thesis by (simp add: yearlyLoop.simps [of p y acc])
  qed
qed

lemma yearlyEntry_total0:
  assumes "frequency p \<noteq> 0" "annualInterestRate p = 0"
  shows "\<exists>e. yearlyEntry p y = Inr e"
  using assms by (simp add: yearlyEntry_def js_div_def js_pow_def bind_e_def Let_def)

lemma yearlyLoop_total0:
  "frequency p \<noteq> 0 \<Longrightarrow> annualInterestRate p = 0 \<Longrightarrow> \<exists>ys. yearlyLoop p y acc = Inr ys"
proof (induction p y acc rule: yearlyLoop.induct)
  case (1 p y acc)
  show ?case
  proof (cases "y \<le> years p")
    case True
    from yearlyEntry_total0 [OF "1.prems"] obtain en where en: "yearlyEntry p y = Inr en" ..
    from "1.IH" [OF True en "1.prems"] True en show ?thesis
      by (simp add: yearlyLoop.simps [of p y acc])
  next
    case False
    then show ?thesis by (simp add: yearlyLoop.simps [of p y acc])
  qed
qed

text \<open>
  C4: in every result of \<open>calculateCompoundInterest\<close> the last entry of the yearly series
  is the entry of year \<open>years\<close>, and its balance, deposits and interest are the future
  value, the total deposits and the total interest of the result. A result is produced
  for every input with non-negative balance, deposit and rate, at least one year and a
  positive frequency (the form offers 1, 2, 4 and 12).
\<close>

theorem series_reconciles_with_totals:
  "(calculateCompoundInterest p = Inr res \<longrightarrow>
      yearlyData res \<noteq> [] \<and>
      year (last (yearlyData res)) = years p \<and>
      balance (last (yearlyData res)) = futureValue res \<and>
      deposits (last (yearlyData res)) = totalDeposits res \<and>
      interest (last (yearlyData res)) = totalInterest res) \<and>
   (0 \<le> initialBalance p \<and> 0 \<le> periodicDeposit p \<and> 0 \<le> annualInterestRate p \<and> 1 \<le> years p \<and>
    0 < frequency p \<longrightarrow> (\<exists>res. calculateCompoundInterest p = Inr res))"
proof (intro conjI impI)
  assume v: "0 \<le> initialBalance p \<and> 0 \<le> periodicDeposit p \<and> 0 \<le> annualInterestRate p \<and> 1 \<le> years p \<and>
    0 < frequency p"
  then have n: "real_of_int (frequency p) \<noteq> 0" and e: "0 \<le> frequency p * years p" by simp_all
  from v obtain ys where ys: "yearlyLoop p 0 [] = Inr ys"
    using yearlyLoop_total [of p 0 "[]"] by auto
  from v n e ys show "\<exists>res. calculateCompoundInterest p = Inr res"
    by (simp add: calculateCompoundInterest_def validateInputs_CI_def js_div_def js_pow_def bind_e_def Let_def)
next
  assume r: "calculateCompoundInterest p = Inr res"
  then have valid: "validateInputs_CI p = []"
    by (auto simp: calculateCompoundInterest_def split: if_splits)
  then have y: "0 < years p" by (auto simp: validateInputs_CI_def split: if_splits)
  from r valid obtain ys where ys: "yearlyLoop p 0 [] = Inr ys" and yd: "yearlyData res = ys"
    by (auto simp: calculateCompoundInterest_def Let_def bind_e_Inr)
  from yearlyLoop_last [OF ys] y have ne: "ys \<noteq> []" and l: "yearlyEntry p (years p) = Inr (last ys)" by simp_all
  have "year en = years p \<and> balance en = futureValue res \<and>
      deposits en = totalDeposits res \<and> interest en = totalInterest res"
    if "yearlyEntry p (years p) = Inr en" for en
    using that r valid y
    by (auto simp: calculateCompoundInterest_def yearlyEntry_def Let_def bind_e_Inr split: if_splits)
  from this [OF l] have "year (last ys) = years p \<and>
      balance (last ys) = futureValue res \<and>
      deposits (last ys) = totalDeposits res \<and>
      interest (last ys) = totalInterest res" .
  with ne yd show "yearlyData res \<noteq> []" "year (last (yearlyData res)) = years p"
     "balance (last (yearlyData res)) = futureValue res"
     "deposits (last (yearlyData res)) = totalDeposits res"
     "interest (last (yearlyData res)) = totalInterest res" by simp_all
qed

theorem series_reconciles_with_totals_witness:
  "0 \<le> initialBalance twoYearPlan \<and> 0 \<le> periodicDeposit twoYearPlan \<and>
   0 \<le> annualInterestRate twoYearPlan \<and> 1 \<le> years twoYearPlan \<and>
   0 < frequency twoYearPlan \<and>
   (\<exists>res. calculateCompoundInterest twoYearPlan = Inr res \<and>
      futureValue res = 12484 \<and> totalDeposits res = 11000 \<and> totalInterest res = 1484 \<and>
      length (yearlyData res) = 3 \<and>
      year (last (yearlyData res)) = years twoYearPlan \<and>
      balance (last (yearlyData res)) = futureValue res \<and>
      deposits (last (yearlyData res)) = totalDeposits res \<and>
      interest (last (yearlyData res)) = totalInterest res)"
proof -
  let ?res = "\<lparr>futureValue = 12484, totalDeposits = 11000, totalInterest = 1484,
        yearlyData =
          [\<lparr>year = 0, balance = 10000, interest = 0, deposits = 10000\<rparr>,
           \<lparr>year = 1, balance = 11200, interest = 700, deposits = 10500\<rparr>,
           \<lparr>year = 2, balance = 12484, interest = 1484, deposits = 11000\<rparr>]\<rparr>"
  have run: "calculateCompoundInterest twoYearPlan = Inr ?res"
    by (simp add: twoYearPlan_def calculateCompoundInterest_def validateInputs_CI_def
        js_div_def js_pow_def bind_e_def Let_def yearlyLoop.simps yearlyEntry_def
        power2_eq_square)
  have hyp: "0 \<le> initialBalance twoYearPlan \<and> 0 \<le> periodicDeposit twoYearPlan \<and>
      0 \<le> annualInterestRate twoYearPlan \<and> 1 \<le> years twoYearPlan \<and>
      0 < frequency twoYearPlan"
    by (simp add: twoYearPlan_def)
  from series_reconciles_with_totals [of twoYearPlan ?res] run
  have "year (last (yearlyData ?res)) = years twoYearPlan \<and>
      balance (last (yearlyData ?res)) = futureValue ?res \<and>
      deposits (last (yearlyData ?res)) = totalDeposits ?res \<and>
      interest (last (yearlyData ?res)) = totalInterest ?res"
    by blast
  with run hyp show ?thesis by simp
qed

text \<open>
  C6: at an annual interest rate of 0, with non-negative balance and deposit, at least
  one year and a frequency other than 0, \<open>calculateCompoundInterest\<close> returns a result
  whose future value is exactly \<open>initialBalance + periodicDeposit \<times> frequency \<times> years\<close>.
  The deposits take the zero-rate branch, so the division by \<open>r/n\<close> is not evaluated and
  the run does not stop at a division by zero.
\<close>

theorem zero_rate_future_value:
  assumes "annualInterestRate p = 0" "0 \<le> initialBalance p" "0 \<le> periodicDeposit p" "1 \<le> years p"
    "frequency p \<noteq> 0"
  shows "calculateCompoundInterest p \<noteq> Inl DivisionByZero \<and>
    (\<exists>res. calculateCompoundInterest p = Inr res \<and>
     futureValue res = initialBalance p + periodicDeposit p * real_of_int (frequency p) * real_of_int (years p))"
proof -
  have "\<exists>ys. yearlyLoop p 0 [] = Inr ys" using assms yearlyLoop_total0 [of p 0 "[]"] by simp
  then obtain ys where ys: "yearlyLoop p 0 [] = Inr ys" ..
  from assms ys show ?thesis
    by (simp add: calculateCompoundInterest_def validateInputs_CI_def js_div_def js_pow_def bind_e_def Let_def)
qed

theorem zero_rate_future_value_witness:
  "annualInterestRate (twoYearPlan\<lparr>annualInterestRate := 0, frequency := 12\<rparr>) = 0 \<and>
   (\<exists>res. calculateCompoundInterest (twoYearPlan\<lparr>annualInterestRate := 0, frequency := 12\<rparr>)
            = Inr res \<and>
      futureValue res = 10000 + 500 * 12 * 2)"
proof -
  let ?p = "twoYearPlan\<lparr>annualInterestRate := 0, frequency := 12\<rparr>"
  have "annualInterestRate ?p = 0" "0 \<le> initialBalance ?p" "0 \<le> periodicDeposit ?p"
    "1 \<le> years ?p" "frequency ?p \<noteq> 0"
    by (simp_all add: twoYearPlan_def)
  from zero_rate_future_value [OF this]
  show ?thesis by (simp add: twoYearPlan_def)
qed

end
